theory Spec2Isabelle
  imports Main
begin

section \<open>Errors\<close>

text \<open>
  Go errors as values. \<open>New\<close> is \<^verbatim>\<open>errors.New\<close>, \<open>Wrapped\<close> is what
  \<^verbatim>\<open>errors.Wrap\<close> builds around a non-nil error, and \<open>External\<close> is an error that
  comes back from the NATS client or from the unmarshaler. A nil error is \<open>None\<close>.
\<close>

datatype error =
    New string
  | Wrapped error string
  | External string

text \<open>\<^verbatim>\<open>errors.Wrap(err, message)\<close> returns nil when \<open>err\<close> is nil.\<close>

definition Wrap :: "error option \<Rightarrow> string \<Rightarrow> error option" where
  "Wrap err message = (case err of None \<Rightarrow> None | Some e \<Rightarrow> Some (Wrapped e message))"

section \<open>The broker and the trace of effects\<close>

record StreamConfig =
  Name :: string
  Description :: string
  Subjects :: "string list"

datatype SubOpt = Durable string | BindStream string

record nats_Msg =
  Subject :: string
  Data :: string

record Message =
  UUID :: string
  Payload :: string

text \<open>
  The callback handed to the broker: the closure of \<open>Subscribe\<close>, which runs
  \<open>processMessage\<close> with the call's context and output channel, or the closure of
  \<open>SubscribeInitialize\<close>, which naks whatever arrives.
\<close>

datatype MsgHandler = processMessage_cb nat nat | nak_cb

text \<open>Every call the package makes on the NATS client.\<close>

datatype call =
    Connect string
  | JetStream
  | StreamInfo string
  | AddStream StreamConfig
  | JsSubscribe string MsgHandler "SubOpt list"
  | QueueSubscribe string string MsgHandler "SubOpt list"
  | Unsubscribe nat
  | Ack nats_Msg
  | Nak nats_Msg
  | Drain

datatype LogLevel = TraceLevel | DebugLevel | InfoLevel | ErrorLevel

datatype channel =
    closing_chan
  | output_chan nat
  | ctx_Done
  | msg_Acked
  | msg_Nacked
  | time_After

text \<open>
  Everything a method does to the outside is appended to a trace: a call of the logger, a
  call of the NATS client with the error it returned, a send or a receive on a channel,
  the close of a channel, the cancellation of a derived context, a panic.
\<close>

datatype event =
    Log LogLevel string "error option"
  | Call call "error option"
  | Send nat Message
  | Recv channel
  | CloseChan channel
  | CancelCtx
  | Panic string

text \<open>
  The NATS client is external. It is a parameter: a function that answers a call with nil
  or an error, and may look at everything that happened before. A theorem about every
  \<open>broker\<close> holds for whatever the server and the network do.
\<close>

type_synonym broker = "event list \<Rightarrow> call \<Rightarrow> error option"

definition invoke :: "broker \<Rightarrow> call \<Rightarrow> event list \<Rightarrow> error option \<times> event list" where
  "invoke br c tr = (br tr c, tr @ [Call c (br tr c)])"

fun broker_calls :: "event list \<Rightarrow> call list" where
  "broker_calls [] = []"
| "broker_calls (Call c r # tr) = c # broker_calls tr"
| "broker_calls (e # tr) = broker_calls tr"

section \<open>Topics, subjects and streams\<close>

record Subjects =
  Primary :: string
  Additional :: "string list"

text \<open>\<^verbatim>\<open>append([]string{s.Primary}, s.Additional...)\<close>\<close>

definition Subjects_All :: "Subjects \<Rightarrow> string list" where
  "Subjects_All s = [Primary s] @ Additional s"

text \<open>
  The calculators are function values. A \<open>SubjectCalculator\<close> returns a pointer in the
  source; the model takes it to be non-nil.
\<close>

type_synonym SubjectCalculator = "string \<Rightarrow> Subjects"
type_synonym DurableNameCalculator = "string \<Rightarrow> string \<Rightarrow> string"
type_synonym QueueGroupCalculator = "string \<Rightarrow> string \<Rightarrow> string"

record topicInterpreter =
  js :: broker
  subjectCalculator :: SubjectCalculator
  durableNameCalculator :: DurableNameCalculator
  queueGroupCalculator :: QueueGroupCalculator

definition defaultSubjectCalculator :: SubjectCalculator where
  "defaultSubjectCalculator topic = \<lparr>Primary = topic @ ''.*'', Additional = []\<rparr>"

text \<open>\<^verbatim>\<open>strings.Replace(topic, ".", "_", -1)\<close> replaces every dot.\<close>

definition defaultDurableNameCalculator :: DurableNameCalculator where
  "defaultDurableNameCalculator durableName topic =
     durableName @ ''_'' @ map (\<lambda>c. if c = CHR ''.'' then CHR ''_'' else c) topic"

definition defaultQueueGroupCalculator :: QueueGroupCalculator where
  "defaultQueueGroupCalculator queueGroup topic = queueGroup @ ''.'' @ topic"

definition newTopicInterpreter :: "broker \<Rightarrow> SubjectCalculator option \<Rightarrow> topicInterpreter" where
  "newTopicInterpreter j formatter =
     \<lparr>js = j,
      subjectCalculator = (case formatter of None \<Rightarrow> defaultSubjectCalculator | Some f \<Rightarrow> f),
      durableNameCalculator = defaultDurableNameCalculator,
      queueGroupCalculator = defaultQueueGroupCalculator\<rparr>"

definition ensureStream :: "topicInterpreter \<Rightarrow> string \<Rightarrow> event list \<Rightarrow> error option \<times> event list" where
  "ensureStream b topic tr =
     (let (err, tr1) = invoke (js b) (StreamInfo topic) tr in
      if err \<noteq> None then
        (let (err, tr2) =
               invoke (js b)
                 (AddStream \<lparr>Name = topic, Description = [],
                             Subjects = Subjects_All (subjectCalculator b topic)\<rparr>) tr1
         in if err \<noteq> None then (err, tr2) else (err, tr2))
      else (err, tr1))"

definition PublishSubject :: "string \<Rightarrow> string \<Rightarrow> string" where
  "PublishSubject topic uuid = topic @ ''.'' @ uuid"

section \<open>Subscriber configuration\<close>

text \<open>
  \<open>SubscriberSubscriptionConfig\<close> holds the fields a subscriber keeps; \<open>SubscriberConfig\<close>
  has the same fields and the connection's. \<open>time.Duration\<close> is a number of nanoseconds.
  An \<open>Unmarshaler\<close> is an interface value: \<open>None\<close> is nil.
\<close>

type_synonym Unmarshaler = "nats_Msg \<Rightarrow> error + Message"

record SubscriberSubscriptionConfig =
  Unmarshaler :: "Unmarshaler option"
  QueueGroup :: string
  DurableName :: string
  SubscribersCount :: int
  AckWaitTimeout :: int
  CloseTimeout :: int
  SubscribeTimeout :: int

record SubscriberConfig = SubscriberSubscriptionConfig +
  URL :: string
  ClusterID :: string
  ClientID :: string
  NatsOptions :: "string list"

definition Second :: int where
  "Second = 1000000000"

definition GetStreamingSubscriberSubscriptionConfig ::
    "SubscriberConfig \<Rightarrow> SubscriberSubscriptionConfig" where
  "GetStreamingSubscriberSubscriptionConfig c =
     \<lparr>Unmarshaler = Unmarshaler c,
      QueueGroup = QueueGroup c,
      DurableName = DurableName c,
      SubscribersCount = SubscribersCount c,
      AckWaitTimeout = AckWaitTimeout c,
      CloseTimeout = CloseTimeout c,
      SubscribeTimeout = SubscribeTimeout c\<rparr>"

definition setDefaults :: "SubscriberSubscriptionConfig \<Rightarrow> SubscriberSubscriptionConfig" where
  "setDefaults c =
     (let c = (if SubscribersCount c \<le> 0 then c\<lparr>SubscribersCount := 1\<rparr> else c);
          c = (if CloseTimeout c \<le> 0 then c\<lparr>CloseTimeout := Second * 30\<rparr> else c);
          c = (if AckWaitTimeout c \<le> 0 then c\<lparr>AckWaitTimeout := Second * 30\<rparr> else c);
          c = (if SubscribeTimeout c \<le> 0 then c\<lparr>SubscribeTimeout := Second * 30\<rparr> else c)
      in c)"

definition Validate :: "SubscriberSubscriptionConfig \<Rightarrow> error option" where
  "Validate c =
     (if Unmarshaler c = None then Some (New ''SubscriberConfig.Unmarshaler is missing'')
      else if QueueGroup c = [] \<and> SubscribersCount c > 1 then
        Some (New (''to set SubscriberConfig.SubscribersCount '' @
                   ''you need to also set SubscriberConfig.QueueGroup, '' @
                   ''in other case you will receive duplicated messages''))
      else None)"

section \<open>The subscriber and its goroutines\<close>

datatype chan_state = ChanOpen | ChanClosed

text \<open>
  One call of \<open>Subscribe\<close> makes one output channel and one local wait group
  \<open>outputWg\<close>; the two live at the same index of the store \<open>outputs\<close>.
\<close>

record out_channel =
  output_state :: chan_state
  outputWg :: int

text \<open>
  The goroutines \<open>Subscribe\<close> starts: per worker one that waits for the closing signal or
  the context and then unsubscribes (context, subscription, output), and per call one that
  waits for \<open>outputWg\<close> and then closes the output channel.
\<close>

datatype goroutine = monitor nat nat nat | closer nat

text \<open>
  The struct's fields \<open>config\<close>, \<open>closed\<close>, \<open>closing\<close> and \<open>outputsWg\<close>, and with
  them the run time the methods act on: the output channels and their wait groups, the
  contexts that are done, the goroutines started and not yet finished, and the trace.
  The fields \<open>conn\<close> and \<open>js\<close> are the \<open>broker\<close> parameter of every method,
  \<open>logger\<close> is the \<open>Log\<close> events of the trace, and \<open>subsLock\<close> is the atomicity
  of \<open>Close\<close> and \<open>isClosed\<close>.
\<close>

record Subscriber =
  config :: SubscriberSubscriptionConfig
  closed :: bool
  closing :: chan_state
  outputsWg :: int
  outputs :: "nat \<Rightarrow> out_channel"
  next_output :: nat
  done_ctxs :: "nat list"
  goroutines :: "goroutine list"
  trace :: "event list"

definition emit :: "event \<Rightarrow> Subscriber \<Rightarrow> Subscriber" where
  "emit e s = s\<lparr>trace := trace s @ [e]\<rparr>"

definition logger :: "LogLevel \<Rightarrow> string \<Rightarrow> error option \<Rightarrow> Subscriber \<Rightarrow> Subscriber" where
  "logger l message err s = emit (Log l message err) s"

definition call_broker :: "broker \<Rightarrow> call \<Rightarrow> Subscriber \<Rightarrow> error option \<times> Subscriber" where
  "call_broker br c s = (let (err, tr) = invoke br c (trace s) in (err, s\<lparr>trace := tr\<rparr>))"

text \<open>\<open>sync.WaitGroup\<close>: \<open>Done\<close> panics when the counter goes below zero.\<close>

definition outputsWg_Done :: "Subscriber \<Rightarrow> Subscriber" where
  "outputsWg_Done s =
     (let s = s\<lparr>outputsWg := outputsWg s - 1\<rparr>
      in if outputsWg s < 0 then emit (Panic ''sync: negative WaitGroup counter'') s else s)"

definition outputWg_Add :: "nat \<Rightarrow> Subscriber \<Rightarrow> Subscriber" where
  "outputWg_Add out s =
     s\<lparr>outputs := (outputs s)(out := (outputs s out)\<lparr>outputWg := outputWg (outputs s out) + 1\<rparr>)\<rparr>"

definition outputWg_Done :: "nat \<Rightarrow> Subscriber \<Rightarrow> Subscriber" where
  "outputWg_Done out s =
     (let s = s\<lparr>outputs :=
                  (outputs s)(out := (outputs s out)\<lparr>outputWg := outputWg (outputs s out) - 1\<rparr>)\<rparr>
      in if outputWg (outputs s out) < 0 then emit (Panic ''sync: negative WaitGroup counter'') s
         else s)"

text \<open>\<open>close(output)\<close>; closing a closed channel panics.\<close>

definition close_output :: "nat \<Rightarrow> Subscriber \<Rightarrow> Subscriber" where
  "close_output out s =
     (if output_state (outputs s out) = ChanClosed then emit (Panic ''close of closed channel'') s
      else emit (CloseChan (output_chan out))
             (s\<lparr>outputs := (outputs s)(out := (outputs s out)\<lparr>output_state := ChanClosed\<rparr>)\<rparr>))"

text \<open>The caller cancels a context it has passed to \<open>Subscribe\<close>.\<close>

definition cancel :: "nat \<Rightarrow> Subscriber \<Rightarrow> Subscriber" where
  "cancel ctx s = s\<lparr>done_ctxs := ctx # done_ctxs s\<rparr>"

definition go :: "goroutine \<Rightarrow> Subscriber \<Rightarrow> Subscriber" where
  "go g s = s\<lparr>goroutines := goroutines s @ [g]\<rparr>"

text \<open>
  A goroutine blocks until its select or its \<open>Wait\<close> can go on, then runs to its end
  without blocking again.
\<close>

fun goroutine_ready :: "goroutine \<Rightarrow> Subscriber \<Rightarrow> bool" where
  "goroutine_ready (monitor ctx sub out) s = (closing s = ChanClosed \<or> ctx \<in> set (done_ctxs s))"
| "goroutine_ready (closer out) s = (outputWg (outputs s out) = 0)"

fun goroutine_body :: "broker \<Rightarrow> goroutine \<Rightarrow> Subscriber \<Rightarrow> Subscriber" where
  "goroutine_body br (monitor ctx sub out) s =
     (let (err, s) = call_broker br (Unsubscribe sub) s;
          s = (if err \<noteq> None then logger ErrorLevel ''Cannot unsubscribe'' err s else s)
      in outputWg_Done out s)"
| "goroutine_body br (closer out) s = outputsWg_Done (close_output out s)"

text \<open>
  The scheduler lets the \<open>k\<close>-th goroutine of the pool run if it is ready; a schedule is
  a list of such picks.
\<close>

definition step :: "broker \<Rightarrow> nat \<Rightarrow> Subscriber \<Rightarrow> Subscriber" where
  "step br k s =
     (if k < length (goroutines s) \<and> goroutine_ready (goroutines s ! k) s then
        goroutine_body br (goroutines s ! k)
          (s\<lparr>goroutines := take k (goroutines s) @ drop (Suc k) (goroutines s)\<rparr>)
      else s)"

fun run_sched :: "broker \<Rightarrow> nat list \<Rightarrow> Subscriber \<Rightarrow> Subscriber" where
  "run_sched br [] s = s"
| "run_sched br (k # ks) s = run_sched br ks (step br k s)"

section \<open>Construction\<close>

text \<open>
  A constructor returns the subscriber or an error, and the trace: what it did to the
  broker either way. The \<open>conn\<close> argument of \<open>NewSubscriberWithNatsConn\<close> is the
  broker with the trace so far. A nil logger is replaced by one that writes nothing; the
  trace holds the calls of the logger either way, so the model has no logger argument.
\<close>

definition NewSubscriberWithNatsConn ::
    "broker \<Rightarrow> SubscriberSubscriptionConfig \<Rightarrow> event list \<Rightarrow> (error + Subscriber) \<times> event list" where
  "NewSubscriberWithNatsConn conn cfg tr =
     (let cfg = setDefaults cfg in
      case Validate cfg of
        Some err \<Rightarrow> (Inl err, tr)
      | None \<Rightarrow>
          (let (err, tr) = invoke conn JetStream tr in
           case err of
             Some e \<Rightarrow> (Inl e, tr)
           | None \<Rightarrow>
               (Inr \<lparr>config = cfg, closed = False, closing = ChanOpen, outputsWg = 0,
                     outputs = (\<lambda>_. \<lparr>output_state = ChanOpen, outputWg = 0\<rparr>), next_output = 0,
                     done_ctxs = [], goroutines = [], trace = tr\<rparr>, tr)))"

definition NewSubscriber ::
    "broker \<Rightarrow> SubscriberConfig \<Rightarrow> event list \<Rightarrow> (error + Subscriber) \<times> event list" where
  "NewSubscriber br cfg tr =
     (let (err, tr) = invoke br (Connect (URL cfg)) tr in
      case err of
        Some e \<Rightarrow> (Inl (Wrapped e ''cannot connect to NATS''), tr)
      | None \<Rightarrow>
          NewSubscriberWithNatsConn br (GetStreamingSubscriberSubscriptionConfig cfg) tr)"

section \<open>Subscribing\<close>

text \<open>
  \<open>js.Subscribe\<close> and \<open>js.QueueSubscribe\<close> return a subscription or an error. The
  subscription is named by the position of the call in the trace.
\<close>

definition js_subscribe :: "broker \<Rightarrow> call \<Rightarrow> Subscriber \<Rightarrow> (error + nat) \<times> Subscriber" where
  "js_subscribe br c s =
     (let (err, s1) = call_broker br c s
      in (case err of Some e \<Rightarrow> Inl e | None \<Rightarrow> Inr (length (trace s)), s1))"

definition subscribe :: "broker \<Rightarrow> string \<Rightarrow> MsgHandler \<Rightarrow> Subscriber \<Rightarrow> (error + nat) \<times> Subscriber" where
  "subscribe br topic cb s =
     (let subTopic = topic @ ''.*'';
          opts = [];
          opts = (if DurableName (config s) \<noteq> [] then opts @ [Durable (DurableName (config s))]
                  else opts @ [BindStream subTopic])
      in if QueueGroup (config s) \<noteq> [] then
           js_subscribe br (QueueSubscribe subTopic (QueueGroup (config s)) cb opts) s
         else js_subscribe br (JsSubscribe subTopic cb opts) s)"

text \<open>
  The loop of \<open>Subscribe\<close>, from worker \<open>i\<close> on: it stops at the first worker whose
  subscription fails and returns the wrapped error.
\<close>

function Subscribe_loop ::
    "broker \<Rightarrow> nat \<Rightarrow> string \<Rightarrow> nat \<Rightarrow> int \<Rightarrow> Subscriber \<Rightarrow> error option \<times> Subscriber" where
  "Subscribe_loop br ctx topic out i s =
     (if i < SubscribersCount (config s) then
        (let s1 = outputWg_Add out s;
             s2 = logger DebugLevel ''Starting subscriber'' None s1;
             r = subscribe br topic (processMessage_cb ctx out) s2
         in case fst r of
              Inl err \<Rightarrow> (Some (Wrapped err ''cannot subscribe''), snd r)
            | Inr sub \<Rightarrow> Subscribe_loop br ctx topic out (i + 1) (go (monitor ctx sub out) (snd r)))
      else (None, s))"
  by pat_completeness auto
termination
  by (relation "measure (\<lambda>(br, ctx, topic, out, i, s). nat (SubscribersCount (config s) - i))")
     (auto simp: subscribe_def js_subscribe_def call_broker_def invoke_def go_def logger_def
        emit_def outputWg_Add_def Let_def)

declare Subscribe_loop.simps [simp del]

definition Subscribe :: "broker \<Rightarrow> nat \<Rightarrow> string \<Rightarrow> Subscriber \<Rightarrow> (error + nat) \<times> Subscriber" where
  "Subscribe br ctx topic s =
     (let out = next_output s;
          s = s\<lparr>outputs := (outputs s)(out := \<lparr>output_state = ChanOpen, outputWg = 0\<rparr>),
                next_output := Suc out\<rparr>;
          s = s\<lparr>outputsWg := outputsWg s + 1\<rparr>;
          (err, s) = Subscribe_loop br ctx topic out 0 s
      in case err of
           Some e \<Rightarrow> (Inl e, s)
         | None \<Rightarrow> (Inr out, go (closer out) s))"

text \<open>
  Modelled from the spec: \<open>initStream\<close> is not among the sources. The spec has
  \<open>SubscribeInitialize\<close> ensure that the stream exists, so \<open>initStream\<close> is
  \<open>ensureStream\<close> of a topic interpreter with the default subject calculator.
\<close>

definition initStream :: "broker \<Rightarrow> string \<Rightarrow> event list \<Rightarrow> error option \<times> event list" where
  "initStream j topic tr = ensureStream (newTopicInterpreter j None) topic tr"

definition SubscribeInitialize :: "broker \<Rightarrow> string \<Rightarrow> Subscriber \<Rightarrow> error option \<times> Subscriber" where
  "SubscribeInitialize br topic s =
     (let (err, tr) = initStream br topic (trace s);
          s = s\<lparr>trace := tr\<rparr>
      in case err of
           Some e \<Rightarrow> (Some (Wrapped e ''cannot initialize subscribe''), s)
         | None \<Rightarrow>
             (let (r, s) = subscribe br topic nak_cb s in
              case r of
                Inl e \<Rightarrow> (Some (Wrapped e ''cannot initialize subscribe''), s)
              | Inr sub \<Rightarrow>
                  (let (err, s) = call_broker br (Unsubscribe sub) s
                   in (Wrap err ''cannot close after subscribe initialize'', s))))"

section \<open>Processing one message\<close>

definition isClosed :: "Subscriber \<Rightarrow> bool" where
  "isClosed s = closed s"

text \<open>
  \<open>processMessage\<close> blocks in two selects. Which case of a select goes first is decided
  by the consumer, the clock, \<open>Close\<close> and the caller's context, so it is an argument.
  The first select has no timer: \<open>send_blocked\<close> is the run in which none of its cases
  ever becomes ready, and \<open>processMessage\<close> never returns (\<open>None\<close>). The second select
  has a timer, so one of its cases always fires. The derived context of the message is
  left out but for its cancellation, which is deferred from the point where it is made.
\<close>

datatype send_select = sent | send_closing | send_ctx_done | send_blocked

datatype wait_select = acked | nacked | ack_timeout | wait_closing | wait_ctx_done

definition processMessage ::
    "broker \<Rightarrow> send_select \<Rightarrow> wait_select \<Rightarrow> nat \<Rightarrow> nats_Msg \<Rightarrow> nat \<Rightarrow> Subscriber \<Rightarrow> Subscriber option" where
  "processMessage br sel1 sel2 ctx m out s =
     (if isClosed s then Some s
      else
        (let s = logger TraceLevel ''Received message'' None s in
         case Unmarshaler (config s) of
           None \<Rightarrow> Some (emit (Panic ''nil pointer dereference'') s)
         | Some unmarshal \<Rightarrow>
             (case unmarshal m of
                Inl err \<Rightarrow> Some (logger ErrorLevel ''Cannot unmarshal message'' (Some err) s)
              | Inr msg \<Rightarrow>
                  (let s = logger TraceLevel ''Unmarshaled message'' None s in
                   case sel1 of
                     send_blocked \<Rightarrow> None
                   | send_closing \<Rightarrow>
                       Some (emit CancelCtx
                         (logger TraceLevel ''Closing, message discarded'' None
                           (emit (Recv closing_chan) s)))
                   | send_ctx_done \<Rightarrow>
                       Some (emit CancelCtx
                         (logger TraceLevel ''Context cancelled, message discarded'' None
                           (emit (Recv ctx_Done) s)))
                   | sent \<Rightarrow>
                       (let s = logger TraceLevel ''Message sent to consumer'' None
                                  (emit (Send out msg) s)
                        in Some (emit CancelCtx
                          (case sel2 of
                             acked \<Rightarrow>
                               (let (err, s) = call_broker br (Ack m) (emit (Recv msg_Acked) s)
                                in if err \<noteq> None then logger ErrorLevel ''Cannot send ack'' err s
                                   else logger TraceLevel ''Message Acked'' None s)
                           | nacked \<Rightarrow>
                               (let (err, s) = call_broker br (Nak m) (emit (Recv msg_Nacked) s)
                                in if err \<noteq> None then logger ErrorLevel ''Cannot send nak'' err s
                                   else logger TraceLevel ''Message Nacked'' None s)
                           | ack_timeout \<Rightarrow>
                               logger TraceLevel ''Ack timeout'' None (emit (Recv time_After) s)
                           | wait_closing \<Rightarrow>
                               logger TraceLevel ''Closing, message discarded before ack'' None
                                 (emit (Recv closing_chan) s)
                           | wait_ctx_done \<Rightarrow>
                               logger TraceLevel ''Context cancelled, message discarded before ack'' None
                                 (emit (Recv ctx_Done) s))))))))"

section \<open>Closing\<close>

datatype 'a outcome = Returned 'a | Panicked

text \<open>
  \<open>internalSync.WaitGroupTimeout\<close> of watermill starts a goroutine that waits for the
  wait group and then signals, and selects between that signal and \<open>time.After\<close> of
  the timeout; it returns true when the timer is the case that fires. What the rest of
  the program does meanwhile is given by two arguments: the schedule, which is what the
  goroutines get to do before the select returns, and \<open>waited\<close>, the nanoseconds after
  which the signal of the waiting goroutine is there to be received once the counter has
  reached zero. The timer fires when the counter has not reached zero, and when it has
  but the timeout is not longer than \<open>waited\<close> (on a tie the select may take either
  case; \<open>waited\<close> stands for the outcome).
\<close>

definition WaitGroupTimeout ::
    "broker \<Rightarrow> nat list \<Rightarrow> int \<Rightarrow> int \<Rightarrow> Subscriber \<Rightarrow> bool \<times> Subscriber" where
  "WaitGroupTimeout br sched waited timeout s =
     (let s = run_sched br sched s in (timeout \<le> waited \<or> outputsWg s \<noteq> 0, s))"

definition Close ::
    "broker \<Rightarrow> nat list \<Rightarrow> int \<Rightarrow> Subscriber \<Rightarrow> error option outcome \<times> Subscriber" where
  "Close br sched waited s =
     (if closed s then (Returned None, s)
      else
        (let s = s\<lparr>closed := True\<rparr>;
             s = logger DebugLevel ''Closing subscriber'' None s
         in if closing s = ChanClosed then
              (Panicked,
               logger InfoLevel ''Subscriber closed'' None (emit (Panic ''close of closed channel'') s))
            else
              (let s = emit (CloseChan closing_chan) (s\<lparr>closing := ChanClosed\<rparr>);
                   (timeout, s) = WaitGroupTimeout br sched waited (CloseTimeout (config s)) s
               in if timeout then
                    (Returned (Some (New ''output wait group did not finish'')),
                     logger InfoLevel ''Subscriber closed'' None s)
                  else
                    (let (err, s) = call_broker br Drain s
                     in if err \<noteq> None then
                          (Returned (Wrap err ''cannot close conn''),
                           logger InfoLevel ''Subscriber closed'' None s)
                        else (Returned None, logger InfoLevel ''Subscriber closed'' None s)))))"

section \<open>Matching a subject against a subscription\<close>

text \<open>
  The broker matches a subject against a subscription token by token, the tokens being
  what the dots separate: a \<open>*\<close> of the subscription stands for exactly one token that
  is not empty, and any other token stands for itself.
\<close>

fun tokens :: "string \<Rightarrow> string list" where
  "tokens [] = [[]]"
| "tokens (c # cs) =
     (if c = CHR ''.'' then [] # tokens cs
      else (case tokens cs of [] \<Rightarrow> [[c]] | t # ts \<Rightarrow> (c # t) # ts))"

fun tokens_match :: "string list \<Rightarrow> string list \<Rightarrow> bool" where
  "tokens_match [] [] = True"
| "tokens_match (p # ps) (t # ts) = ((if p = ''*'' then t \<noteq> [] else p = t) \<and> tokens_match ps ts)"
| "tokens_match ps ts = False"

definition subject_matches :: "string \<Rightarrow> string \<Rightarrow> bool" where
  "subject_matches subscription subject = tokens_match (tokens subscription) (tokens subject)"

section \<open>Observing a trace\<close>

text \<open>What a method added to the trace of the subscriber it started from.\<close>

definition new_events :: "Subscriber \<Rightarrow> Subscriber \<Rightarrow> event list" where
  "new_events s s' = drop (length (trace s)) (trace s')"

fun recvs :: "event list \<Rightarrow> channel list" where
  "recvs [] = []"
| "recvs (Recv ch # tr) = ch # recvs tr"
| "recvs (e # tr) = recvs tr"

fun sends :: "event list \<Rightarrow> (nat \<times> Message) list" where
  "sends [] = []"
| "sends (Send out msg # tr) = (out, msg) # sends tr"
| "sends (e # tr) = sends tr"

fun chan_closes :: "event list \<Rightarrow> channel list" where
  "chan_closes [] = []"
| "chan_closes (CloseChan ch # tr) = ch # chan_closes tr"
| "chan_closes (e # tr) = chan_closes tr"

fun subscribed_subject :: "call \<Rightarrow> string option" where
  "subscribed_subject (JsSubscribe subj cb opts) = Some subj"
| "subscribed_subject (QueueSubscribe subj q cb opts) = Some subj"
| "subscribed_subject c = None"

text \<open>The channel each case of the second select of \<open>processMessage\<close> receives from.\<close>

fun wait_channel :: "wait_select \<Rightarrow> channel" where
  "wait_channel acked = msg_Acked"
| "wait_channel nacked = msg_Nacked"
| "wait_channel ack_timeout = time_After"
| "wait_channel wait_closing = closing_chan"
| "wait_channel wait_ctx_done = ctx_Done"

text \<open>The broker calls that answer each case: one \<open>Ack\<close>, one \<open>Nak\<close>, or none.\<close>

fun acknowledgement :: "wait_select \<Rightarrow> nats_Msg \<Rightarrow> call list" where
  "acknowledgement acked m = [Ack m]"
| "acknowledgement nacked m = [Nak m]"
| "acknowledgement sel m = []"

fun is_closer :: "goroutine \<Rightarrow> bool" where
  "is_closer (closer out) = True"
| "is_closer (monitor ctx sub out) = False"

definition rejected :: "SubscriberSubscriptionConfig \<Rightarrow> bool" where
  "rejected cfg = (Validate (setDefaults cfg) \<noteq> None)"

definition stream_config :: "topicInterpreter \<Rightarrow> string \<Rightarrow> StreamConfig" where
  "stream_config b topic =
     \<lparr>Name = topic, Description = [], Subjects = Subjects_All (subjectCalculator b topic)\<rparr>"

text \<open>A subscriber whose configuration differs in \<open>SubscribeTimeout\<close> only.\<close>

definition with_SubscribeTimeout :: "int \<Rightarrow> Subscriber \<Rightarrow> Subscriber" where
  "with_SubscribeTimeout t s = s\<lparr>config := (config s)\<lparr>SubscribeTimeout := t\<rparr>\<rparr>"

section \<open>Brokers and configurations to run the model on\<close>

text \<open>A broker that accepts every call.\<close>

definition accepting :: broker where
  "accepting tr c = None"

text \<open>
  A broker that keeps the streams it created: a lookup finds a stream once an
  \<open>AddStream\<close> of that name has succeeded, and a second \<open>AddStream\<close> of the name
  is refused.
\<close>

fun streams :: "event list \<Rightarrow> string list" where
  "streams [] = []"
| "streams (Call (AddStream cfg) None # tr) = Name cfg # streams tr"
| "streams (e # tr) = streams tr"

definition stream_store :: broker where
  "stream_store tr c =
     (case c of
        StreamInfo name \<Rightarrow>
          (if name \<in> set (streams tr) then None else Some (External ''nats: stream not found''))
      | AddStream cfg \<Rightarrow>
          (if Name cfg \<in> set (streams tr) then Some (External ''nats: stream name already in use'')
           else None)
      | _ \<Rightarrow> None)"

text \<open>
  A broker on which the stream exists under another configuration while the lookup times
  out: the creation is refused with the error of a name that is taken.
\<close>

definition lookup_times_out :: broker where
  "lookup_times_out tr c =
     (case c of
        StreamInfo name \<Rightarrow> Some (External ''nats: timeout'')
      | AddStream cfg \<Rightarrow> Some (External ''nats: stream name already in use'')
      | _ \<Rightarrow> None)"

text \<open>A broker that refuses the second subscription made on a connection.\<close>

definition second_subscribe_fails :: broker where
  "second_subscribe_fails tr c =
     (case c of
        QueueSubscribe subj q cb opts \<Rightarrow>
          (if length (broker_calls tr) = 2 then Some (External ''nats: timeout'') else None)
      | _ \<Rightarrow> None)"

definition orders_config :: SubscriberSubscriptionConfig where
  "orders_config =
     \<lparr>Unmarshaler = Some (\<lambda>m. Inr \<lparr>UUID = Subject m, Payload = Data m\<rparr>),
      QueueGroup = [], DurableName = [], SubscribersCount = 1,
      AckWaitTimeout = 0, CloseTimeout = 0, SubscribeTimeout = 0\<rparr>"

definition orders_subscriber :: Subscriber where
  "orders_subscriber = projr (fst (NewSubscriberWithNatsConn accepting orders_config []))"

definition strict_config :: SubscriberSubscriptionConfig where
  "strict_config =
     \<lparr>Unmarshaler = Some (\<lambda>m. if Data m = [] then Inl (External ''empty payload'')
                                else Inr \<lparr>UUID = Subject m, Payload = Data m\<rparr>),
      QueueGroup = [], DurableName = ''durable'', SubscribersCount = 1,
      AckWaitTimeout = 0, CloseTimeout = 0, SubscribeTimeout = 0\<rparr>"

definition strict_subscriber :: Subscriber where
  "strict_subscriber = projr (fst (NewSubscriberWithNatsConn accepting strict_config []))"

definition two_workers_config :: SubscriberSubscriptionConfig where
  "two_workers_config =
     \<lparr>Unmarshaler = Some (\<lambda>m. Inr \<lparr>UUID = Subject m, Payload = Data m\<rparr>),
      QueueGroup = ''g1'', DurableName = [], SubscribersCount = 2,
      AckWaitTimeout = 0, CloseTimeout = 0, SubscribeTimeout = 0\<rparr>"

definition two_workers :: Subscriber where
  "two_workers =
     projr (fst (NewSubscriberWithNatsConn second_subscribe_fails two_workers_config []))"

definition no_unmarshaler_config :: SubscriberConfig where
  "no_unmarshaler_config =
     \<lparr>Unmarshaler = None, QueueGroup = [], DurableName = [], SubscribersCount = 0,
      AckWaitTimeout = 0, CloseTimeout = 0, SubscribeTimeout = 0,
      URL = ''nats://localhost:4222'', ClusterID = [], ClientID = [], NatsOptions = []\<rparr>"

section \<open>Facts about traces and goroutines\<close>

lemma broker_calls_append: "broker_calls (xs @ ys) = broker_calls xs @ broker_calls ys"
  by (induction xs rule: broker_calls.induct) simp_all

lemma chan_closes_append: "chan_closes (xs @ ys) = chan_closes xs @ chan_closes ys"
  by (induction xs rule: chan_closes.induct) simp_all

lemma trace_subscribe:
  "trace (snd (subscribe br topic cb s)) =
     trace s @
     [Call (if QueueGroup (config s) \<noteq> []
            then QueueSubscribe (topic @ ''.*'') (QueueGroup (config s)) cb
                   (if DurableName (config s) \<noteq> [] then [Durable (DurableName (config s))]
                    else [BindStream (topic @ ''.*'')])
            else JsSubscribe (topic @ ''.*'') cb
                   (if DurableName (config s) \<noteq> [] then [Durable (DurableName (config s))]
                    else [BindStream (topic @ ''.*'')]))
        (br (trace s)
           (if QueueGroup (config s) \<noteq> []
            then QueueSubscribe (topic @ ''.*'') (QueueGroup (config s)) cb
                   (if DurableName (config s) \<noteq> [] then [Durable (DurableName (config s))]
                    else [BindStream (topic @ ''.*'')])
            else JsSubscribe (topic @ ''.*'') cb
                   (if DurableName (config s) \<noteq> [] then [Durable (DurableName (config s))]
                    else [BindStream (topic @ ''.*'')])))]"
  by (simp add: subscribe_def js_subscribe_def call_broker_def invoke_def Let_def)

lemma subscribe_fields:
  "closed (snd (subscribe br topic cb s)) = closed s"
  "closing (snd (subscribe br topic cb s)) = closing s"
  "config (snd (subscribe br topic cb s)) = config s"
  by (simp_all add: subscribe_def js_subscribe_def call_broker_def invoke_def Let_def)

lemma step_fields:
  "closed (step br k s) = closed s"
  "closing (step br k s) = closing s"
  "config (step br k s) = config s"
  by (cases "goroutines s ! k";
      simp add: step_def call_broker_def invoke_def logger_def emit_def outputWg_Done_def
        outputsWg_Done_def close_output_def Let_def)+

lemma run_sched_fields:
  "closed (run_sched br sched s) = closed s"
  "closing (run_sched br sched s) = closing s"
  "config (run_sched br sched s) = config s"
  by (induction sched arbitrary: s; simp add: step_fields)+

lemma step_closing_closes:
  "count_list (chan_closes (trace (step br k s))) closing_chan =
   count_list (chan_closes (trace s)) closing_chan"
  by (cases "goroutines s ! k";
      simp add: step_def call_broker_def invoke_def logger_def emit_def outputWg_Done_def
        outputsWg_Done_def close_output_def Let_def chan_closes_append)

lemma run_sched_closing_closes:
  "count_list (chan_closes (trace (run_sched br sched s))) closing_chan =
   count_list (chan_closes (trace s)) closing_chan"
  by (induction sched arbitrary: s) (simp_all add: step_closing_closes)

lemma step_drains:
  "count_list (broker_calls (trace (step br k s))) Drain =
   count_list (broker_calls (trace s)) Drain"
  by (cases "goroutines s ! k";
      simp add: step_def call_broker_def invoke_def logger_def emit_def outputWg_Done_def
        outputsWg_Done_def close_output_def Let_def broker_calls_append)

lemma run_sched_drains:
  "count_list (broker_calls (trace (run_sched br sched s))) Drain =
   count_list (broker_calls (trace s)) Drain"
  by (induction sched arbitrary: s) (simp_all add: step_drains)

text \<open>
  Only the goroutine that closes an output channel calls \<open>Done\<close> on \<open>outputsWg\<close>:
  a pool without one leaves the counter where it is, whatever the schedule.
\<close>

lemma step_without_closer:
  assumes "list_all (\<lambda>g. \<not> is_closer g) (goroutines s)"
  shows "outputsWg (step br k s) = outputsWg s \<and>
         list_all (\<lambda>g. \<not> is_closer g) (goroutines (step br k s))"
proof (cases "k < length (goroutines s) \<and> goroutine_ready (goroutines s ! k) s")
  case False
  with assms show ?thesis by (auto simp add: step_def)
next
  case True
  then have "\<not> is_closer (goroutines s ! k)"
    using assms by (simp add: list_all_length)
  then obtain ctx sub out where g: "goroutines s ! k = monitor ctx sub out"
    by (cases "goroutines s ! k") simp_all
  have "list_all (\<lambda>g. \<not> is_closer g) (take k (goroutines s) @ drop (Suc k) (goroutines s))"
    using assms by (auto simp add: list_all_iff dest: in_set_takeD in_set_dropD)
  with True g show ?thesis
    by (simp add: step_def call_broker_def invoke_def logger_def emit_def outputWg_Done_def Let_def)
qed

lemma run_sched_without_closer:
  "list_all (\<lambda>g. \<not> is_closer g) (goroutines s) \<Longrightarrow>
   outputsWg (run_sched br sched s) = outputsWg s"
  by (induction sched arbitrary: s) (simp_all add: step_without_closer)

section \<open>The subscribers the model is run on\<close>

lemma orders_subscriber_eq:
  "orders_subscriber =
     \<lparr>config = orders_config\<lparr>CloseTimeout := Second * 30, AckWaitTimeout := Second * 30,
                               SubscribeTimeout := Second * 30\<rparr>,
      closed = False, closing = ChanOpen, outputsWg = 0,
      outputs = (\<lambda>_. \<lparr>output_state = ChanOpen, outputWg = 0\<rparr>), next_output = 0,
      done_ctxs = [], goroutines = [], trace = [Call JetStream None]\<rparr>"
  by (simp add: orders_subscriber_def NewSubscriberWithNatsConn_def orders_config_def
        accepting_def setDefaults_def Validate_def invoke_def Let_def)

lemma strict_subscriber_eq:
  "strict_subscriber =
     \<lparr>config = strict_config\<lparr>CloseTimeout := Second * 30, AckWaitTimeout := Second * 30,
                               SubscribeTimeout := Second * 30\<rparr>,
      closed = False, closing = ChanOpen, outputsWg = 0,
      outputs = (\<lambda>_. \<lparr>output_state = ChanOpen, outputWg = 0\<rparr>), next_output = 0,
      done_ctxs = [], goroutines = [], trace = [Call JetStream None]\<rparr>"
  by (simp add: strict_subscriber_def NewSubscriberWithNatsConn_def strict_config_def
        accepting_def setDefaults_def Validate_def invoke_def Let_def)

lemma two_workers_eq:
  "two_workers =
     \<lparr>config = two_workers_config\<lparr>CloseTimeout := Second * 30, AckWaitTimeout := Second * 30,
                                    SubscribeTimeout := Second * 30\<rparr>,
      closed = False, closing = ChanOpen, outputsWg = 0,
      outputs = (\<lambda>_. \<lparr>output_state = ChanOpen, outputWg = 0\<rparr>), next_output = 0,
      done_ctxs = [], goroutines = [], trace = [Call JetStream None]\<rparr>"
  by (simp add: two_workers_def NewSubscriberWithNatsConn_def two_workers_config_def
        second_subscribe_fails_def setDefaults_def Validate_def invoke_def Let_def)

text \<open>
  One call of \<open>Subscribe\<close> on the fresh subscriber for \<open>orders\<close>: the worker subscribes
  (its subscription is event 2 of the trace) and the two goroutines are started.
\<close>

lemma Subscribe_orders:
  "Subscribe accepting 0 ''orders'' orders_subscriber =
     (Inr 0,
      orders_subscriber
        \<lparr>outputsWg := 1,
         outputs := (\<lambda>_. \<lparr>output_state = ChanOpen, outputWg = 0\<rparr>)
                      (0 := \<lparr>output_state = ChanOpen, outputWg = 1\<rparr>),
         next_output := 1,
         goroutines := [monitor 0 2 0, closer 0],
         trace := [Call JetStream None,
                   Log DebugLevel ''Starting subscriber'' None,
                   Call (JsSubscribe ''orders.*'' (processMessage_cb 0 0) [BindStream ''orders.*''])
                     None]\<rparr>)"
  by (simp add: orders_subscriber_eq Subscribe_def Subscribe_loop.simps orders_config_def
        outputWg_Add_def logger_def emit_def subscribe_def js_subscribe_def call_broker_def
        invoke_def Let_def go_def accepting_def)

section \<open>The acknowledgement of a forwarded message\<close>

text \<open>
  C1. A message that \<open>processMessage\<close> has decoded and sent on the output channel
  gets one terminal outcome, once. For every case of the second select and whatever the
  broker answers, \<open>processMessage\<close> returns; it has sent the message once; it has
  left the wait through one receive, the one of the case that fired; the broker calls it
  made are one \<open>Ack\<close> when the consumer acked first, one \<open>Nak\<close> when the
  consumer nacked first, and none on the timeout, the closing signal and the cancelled
  context; and nothing of the subscriber but its trace has changed.
\<close>

theorem processMessage_one_outcome:
  assumes "\<not> closed s" and "Unmarshaler (config s) = Some unmarshal" and "unmarshal m = Inr msg"
  shows "\<exists>s'. processMessage br sent sel2 ctx m out s = Some s' \<and>
           sends (new_events s s') = [(out, msg)] \<and>
           recvs (new_events s s') = [wait_channel sel2] \<and>
           broker_calls (new_events s s') = acknowledgement sel2 m \<and>
           s'\<lparr>trace := trace s\<rparr> = s"
  using assms
  by (cases sel2)
     (simp_all add: processMessage_def isClosed_def logger_def emit_def call_broker_def
        invoke_def Let_def new_events_def)

text \<open>
  The theorem at the message \<open>orders.abc123\<close> on the fresh subscriber for
  \<open>orders\<close>, acked by the consumer: one \<open>Ack\<close> and nothing else goes to the broker.
\<close>

theorem processMessage_one_outcome_witness:
  "\<not> closed orders_subscriber \<and>
   (\<exists>s'. processMessage accepting sent acked 0 \<lparr>Subject = ''orders.abc123'', Data = ''x''\<rparr> 0
            orders_subscriber = Some s' \<and>
          sends (new_events orders_subscriber s') =
            [(0, \<lparr>UUID = ''orders.abc123'', Payload = ''x''\<rparr>)] \<and>
          recvs (new_events orders_subscriber s') = [msg_Acked] \<and>
          broker_calls (new_events orders_subscriber s') =
            [Ack \<lparr>Subject = ''orders.abc123'', Data = ''x''\<rparr>])"
proof -
  have c: "\<not> closed orders_subscriber"
    by (simp add: orders_subscriber_eq)
  have u: "Unmarshaler (config orders_subscriber) =
             Some (\<lambda>m. Inr \<lparr>UUID = Subject m, Payload = Data m\<rparr>)"
    by (simp add: orders_subscriber_eq orders_config_def)
  have r: "(\<lambda>m. Inr \<lparr>UUID = Subject m, Payload = Data m\<rparr>)
             \<lparr>Subject = ''orders.abc123'', Data = ''x''\<rparr> =
           (Inr \<lparr>UUID = ''orders.abc123'', Payload = ''x''\<rparr> :: error + Message)"
    by simp
  from processMessage_one_outcome [OF c u r, of accepting acked 0 0] c show ?thesis
    by auto
qed

section \<open>A failed subscription in the middle of \<open>Subscribe\<close>\<close>

text \<open>
  C2. The claim has \<open>Subscribe\<close> leave the wait group that \<open>Close\<close> waits for
  balanced when a later worker fails to subscribe. The code does not: it adds one to
  \<open>outputsWg\<close> before the loop and returns from inside the loop, so the goroutine
  that would call \<open>Done\<close> is never started. With two workers in queue group \<open>g1\<close>
  and a broker that refuses the second subscription, \<open>Subscribe\<close> returns no channel
  and the wrapped error, and the first worker's monitor is the only goroutine left. It
  does unsubscribe that worker, on the closing signal as on the cancelled context, but
  the counter stays at one, and \<open>Close\<close> runs into its timeout under every schedule.
\<close>

theorem Subscribe_failure_leaves_outputsWg_unbalanced:
  "fst (Subscribe second_subscribe_fails 0 ''orders'' two_workers) =
     Inl (Wrapped (External ''nats: timeout'') ''cannot subscribe'') \<and>
   outputsWg (snd (Subscribe second_subscribe_fails 0 ''orders'' two_workers)) = 1 \<and>
   goroutines (snd (Subscribe second_subscribe_fails 0 ''orders'' two_workers)) =
     [monitor 0 2 0] \<and>
   broker_calls
     (new_events (snd (Subscribe second_subscribe_fails 0 ''orders'' two_workers))
        (step second_subscribe_fails 0
           (cancel 0 (snd (Subscribe second_subscribe_fails 0 ''orders'' two_workers))))) =
     [Unsubscribe 2] \<and>
   broker_calls
     (new_events (snd (Subscribe second_subscribe_fails 0 ''orders'' two_workers))
        (snd (Close second_subscribe_fails [0] 0
           (snd (Subscribe second_subscribe_fails 0 ''orders'' two_workers))))) =
     [Unsubscribe 2] \<and>
   (\<forall>sched waited. fst (Close second_subscribe_fails sched waited
                   (snd (Subscribe second_subscribe_fails 0 ''orders'' two_workers))) =
              Returned (Some (New ''output wait group did not finish'')))"
proof -
  define leaked where "leaked = snd (Subscribe second_subscribe_fails 0 ''orders'' two_workers)"
  have e: "Subscribe second_subscribe_fails 0 ''orders'' two_workers =
      (Inl (Wrapped (External ''nats: timeout'') ''cannot subscribe''),
       two_workers
         \<lparr>outputsWg := 1,
          outputs := (\<lambda>_. \<lparr>output_state = ChanOpen, outputWg = 0\<rparr>)
                       (0 := \<lparr>output_state = ChanOpen, outputWg = 2\<rparr>),
          next_output := 1,
          goroutines := [monitor 0 2 0],
          trace := [Call JetStream None,
                    Log DebugLevel ''Starting subscriber'' None,
                    Call (QueueSubscribe ''orders.*'' ''g1'' (processMessage_cb 0 0)
                            [BindStream ''orders.*'']) None,
                    Log DebugLevel ''Starting subscriber'' None,
                    Call (QueueSubscribe ''orders.*'' ''g1'' (processMessage_cb 0 0)
                            [BindStream ''orders.*'']) (Some (External ''nats: timeout''))]\<rparr>)"
    by (simp add: two_workers_eq Subscribe_def Subscribe_loop.simps
          two_workers_config_def outputWg_Add_def logger_def emit_def subscribe_def
          js_subscribe_def call_broker_def invoke_def Let_def go_def second_subscribe_fails_def)
  have l: "outputsWg leaked = 1 \<and> goroutines leaked = [monitor 0 2 0] \<and>
           closed leaked = False \<and> closing leaked = ChanOpen"
    unfolding leaked_def e snd_conv by (simp add: two_workers_eq)
  have u1: "broker_calls (new_events leaked (step second_subscribe_fails 0 (cancel 0 leaked))) =
              [Unsubscribe 2]"
    unfolding leaked_def e snd_conv
    by (simp add: two_workers_eq new_events_def cancel_def step_def call_broker_def invoke_def
          second_subscribe_fails_def outputWg_Done_def Let_def)
  have u2: "broker_calls (new_events leaked (snd (Close second_subscribe_fails [0] 0 leaked))) =
              [Unsubscribe 2]"
    unfolding leaked_def e snd_conv
    by (simp add: two_workers_eq new_events_def Close_def WaitGroupTimeout_def step_def
          call_broker_def invoke_def logger_def emit_def second_subscribe_fails_def
          outputWg_Done_def Let_def)
  have "outputsWg (run_sched second_subscribe_fails sched
          (emit (CloseChan closing_chan)
             ((logger DebugLevel ''Closing subscriber'' None (leaked\<lparr>closed := True\<rparr>))
                \<lparr>closing := ChanClosed\<rparr>))) = 1" for sched
    using l by (subst run_sched_without_closer) (simp_all add: emit_def logger_def)
  then have "fst (Close second_subscribe_fails sched waited leaked) =
               Returned (Some (New ''output wait group did not finish''))" for sched waited
    using l by (simp add: Close_def WaitGroupTimeout_def logger_def emit_def Let_def
                  split: prod.splits)
  with l u1 u2 show ?thesis
    unfolding leaked_def [symmetric] by (simp add: leaked_def e)
qed

section \<open>The timeout of \<open>Close\<close>\<close>

text \<open>
  C3 as stated fails: on the fresh subscriber for \<open>orders\<close> with one subscription,
  when no goroutine gets to run before the timeout, \<open>Close\<close> returns the error and
  the trace holds no \<open>Drain\<close>.
\<close>

theorem Close_timeout_skips_drain_counterexample:
  "fst (Close accepting [] 0 (snd (Subscribe accepting 0 ''orders'' orders_subscriber))) =
     Returned (Some (New ''output wait group did not finish'')) \<and>
   count_list
     (broker_calls
        (trace (snd (Close accepting [] 0 (snd (Subscribe accepting 0 ''orders'' orders_subscriber))))))
     Drain = 0"
  unfolding Subscribe_orders snd_conv
  by (simp add: orders_subscriber_eq Close_def WaitGroupTimeout_def logger_def emit_def Let_def)

text \<open>
  Nothing after the wait changes the counter or the configuration, so what
  \<open>WaitGroupTimeout\<close> returned to \<open>Close\<close> can be read off the subscriber that
  \<open>Close\<close> leaves: the wait timed out exactly when \<open>CloseTimeout\<close> is not longer
  than \<open>waited\<close> or the counter is not zero.
\<close>

lemma Close_timed_out_is_the_wait:
  assumes "\<not> closed s" and "closing s = ChanOpen"
  shows "(CloseTimeout (config s) \<le> waited \<or> outputsWg (snd (Close br sched waited s)) \<noteq> 0) =
         fst (WaitGroupTimeout br sched waited (CloseTimeout (config s))
                (emit (CloseChan closing_chan)
                   ((logger DebugLevel ''Closing subscriber'' None (s\<lparr>closed := True\<rparr>))
                      \<lparr>closing := ChanClosed\<rparr>)))"
  using assms
  by (simp add: Close_def WaitGroupTimeout_def logger_def emit_def call_broker_def invoke_def
        Let_def split: prod.splits)

text \<open>
  C3, amended. On the first \<open>Close\<close> of a subscriber that is not closed: when the
  wait group does not finish within \<open>CloseTimeout\<close> (the timer fires no later than
  the signal of the wait, or the counter of \<open>outputsWg\<close> has not reached zero),
  \<open>Close\<close> returns the error \<open>output wait group did not finish\<close> and has not
  called \<open>Drain\<close>; when it finishes in time, \<open>Close\<close> has called \<open>Drain\<close>
  once and returns what \<open>Drain\<close> returned, wrapped.
\<close>

theorem Close_drains_only_without_timeout:
  assumes "\<not> closed s" and "closing s = ChanOpen"
  shows "if CloseTimeout (config s) \<le> waited \<or> outputsWg (snd (Close br sched waited s)) \<noteq> 0
         then
           fst (Close br sched waited s) =
             Returned (Some (New ''output wait group did not finish'')) \<and>
           count_list (broker_calls (trace (snd (Close br sched waited s)))) Drain =
             count_list (broker_calls (trace s)) Drain
         else
           (\<exists>err. fst (Close br sched waited s) = Returned (Wrap err ''cannot close conn'')) \<and>
           count_list (broker_calls (trace (snd (Close br sched waited s)))) Drain =
             count_list (broker_calls (trace s)) Drain + 1"
proof -
  have w: "Returned None = Returned (Wrap None ''cannot close conn'')"
    by (simp add: Wrap_def)
  from assms show ?thesis
    by (auto simp add: Close_def WaitGroupTimeout_def logger_def emit_def call_broker_def invoke_def
          Let_def run_sched_fields run_sched_drains broker_calls_append w
          split: prod.splits)
qed

text \<open>
  The theorem on the subscriber for \<open>orders\<close> with one subscription, whose
  \<open>CloseTimeout\<close> is the default of thirty seconds. When the monitor and then the
  closer run and the signal is there after one millisecond, the wait group finishes and
  the connection is drained. When the monitor runs only, the counter stays at one, the
  wait times out and the connection is not drained. When both run but the signal takes
  the thirty seconds, the counter is zero and still the wait times out and the connection
  is not drained.
\<close>

theorem Close_drains_only_without_timeout_witness:
  "\<not> closed (snd (Subscribe accepting 0 ''orders'' orders_subscriber)) \<and>
   closing (snd (Subscribe accepting 0 ''orders'' orders_subscriber)) = ChanOpen \<and>
   CloseTimeout (config (snd (Subscribe accepting 0 ''orders'' orders_subscriber))) =
     30000000000 \<and>
   outputsWg (snd (Close accepting [0, 0] 1000000
                (snd (Subscribe accepting 0 ''orders'' orders_subscriber)))) = 0 \<and>
   count_list (broker_calls (trace (snd (Close accepting [0, 0] 1000000
                (snd (Subscribe accepting 0 ''orders'' orders_subscriber)))))) Drain = 1 \<and>
   outputsWg (snd (Close accepting [0] 1000000
                (snd (Subscribe accepting 0 ''orders'' orders_subscriber)))) = 1 \<and>
   fst (Close accepting [0] 1000000 (snd (Subscribe accepting 0 ''orders'' orders_subscriber))) =
     Returned (Some (New ''output wait group did not finish'')) \<and>
   count_list (broker_calls (trace (snd (Close accepting [0] 1000000
                (snd (Subscribe accepting 0 ''orders'' orders_subscriber)))))) Drain = 0 \<and>
   outputsWg (snd (Close accepting [0, 0] 30000000000
                (snd (Subscribe accepting 0 ''orders'' orders_subscriber)))) = 0 \<and>
   fst (Close accepting [0, 0] 30000000000
          (snd (Subscribe accepting 0 ''orders'' orders_subscriber))) =
     Returned (Some (New ''output wait group did not finish'')) \<and>
   count_list (broker_calls (trace (snd (Close accepting [0, 0] 30000000000
                (snd (Subscribe accepting 0 ''orders'' orders_subscriber)))))) Drain = 0"
proof -
  let ?s = "snd (Subscribe accepting 0 ''orders'' orders_subscriber)"
  have c: "\<not> closed ?s" and o: "closing ?s = ChanOpen"
    unfolding Subscribe_orders snd_conv by (simp_all add: orders_subscriber_eq)
  have t: "CloseTimeout (config ?s) = 30000000000"
    unfolding Subscribe_orders snd_conv by (simp add: orders_subscriber_eq Second_def)
  have d: "count_list (broker_calls (trace ?s)) Drain = 0"
    unfolding Subscribe_orders snd_conv by (simp add: orders_subscriber_eq)
  have w2: "outputsWg (snd (Close accepting [0, 0] waited ?s)) = 0" for waited
    unfolding Subscribe_orders snd_conv
    by (simp add: orders_subscriber_eq Close_def WaitGroupTimeout_def step_def
          logger_def emit_def call_broker_def invoke_def accepting_def outputWg_Done_def
          outputsWg_Done_def close_output_def Let_def)
  have w1: "outputsWg (snd (Close accepting [0] 1000000 ?s)) = 1"
    unfolding Subscribe_orders snd_conv
    by (simp add: orders_subscriber_eq Close_def WaitGroupTimeout_def step_def
          logger_def emit_def call_broker_def invoke_def accepting_def outputWg_Done_def
          outputsWg_Done_def close_output_def Let_def)
  from Close_drains_only_without_timeout [OF c o, of 1000000 accepting "[0, 0]"]
       Close_drains_only_without_timeout [OF c o, of 1000000 accepting "[0]"]
       Close_drains_only_without_timeout [OF c o, of 30000000000 accepting "[0, 0]"]
       c o t d w1 w2 [of 1000000] w2 [of 30000000000]
  show ?thesis
    by simp
qed

section \<open>What a worker subscribes to\<close>

text \<open>
  C4. The claim has a worker without a durable name bind to the stream named after the
  topic. For the topic \<open>orders\<close> the worker of the subscriber without a durable name
  and without a queue group makes one broker call: a subscription to the subject
  \<open>orders.*\<close> whose option binds the stream named \<open>orders.*\<close>, the subject
  again, while \<open>ensureStream\<close> creates the stream under the name \<open>orders\<close>. With
  a durable name the option is the durable name.
\<close>

theorem subscribe_binds_stream_named_by_subject:
  "broker_calls (new_events orders_subscriber
                   (snd (subscribe accepting ''orders'' nak_cb orders_subscriber))) =
     [JsSubscribe ''orders.*'' nak_cb [BindStream ''orders.*'']] \<and>
   BindStream ''orders.*'' \<noteq> BindStream ''orders'' \<and>
   broker_calls (snd (ensureStream (newTopicInterpreter stream_store None) ''orders'' [])) =
     [StreamInfo ''orders'',
      AddStream \<lparr>Name = ''orders'', Description = [], Subjects = [''orders.*'']\<rparr>] \<and>
   broker_calls (new_events strict_subscriber
                   (snd (subscribe accepting ''orders'' nak_cb strict_subscriber))) =
     [JsSubscribe ''orders.*'' nak_cb [Durable ''durable'']]"
  by (simp add: new_events_def trace_subscribe orders_subscriber_eq strict_subscriber_eq
        orders_config_def strict_config_def ensureStream_def newTopicInterpreter_def
        stream_store_def invoke_def defaultSubjectCalculator_def Subjects_All_def Let_def)

section \<open>Ensuring that the stream exists\<close>

text \<open>
  C5 as stated fails: when the lookup fails and the creation is refused because the name
  is taken, \<open>ensureStream\<close> returns that error.
\<close>

theorem ensureStream_already_exists_counterexample:
  "ensureStream (newTopicInterpreter lookup_times_out None) ''orders'' [] =
     (Some (External ''nats: stream name already in use''),
      [Call (StreamInfo ''orders'') (Some (External ''nats: timeout'')),
       Call (AddStream \<lparr>Name = ''orders'', Description = [], Subjects = [''orders.*'']\<rparr>)
         (Some (External ''nats: stream name already in use''))])"
  by (simp add: ensureStream_def newTopicInterpreter_def lookup_times_out_def invoke_def
        defaultSubjectCalculator_def Subjects_All_def Let_def)

text \<open>
  C5, amended. \<open>ensureStream\<close> first asks the broker for the stream info of the topic.
  When the lookup succeeds it returns nil and does nothing more. When the lookup fails,
  for whatever reason, it calls \<open>AddStream\<close> once, for a stream named after the topic
  with the subjects \<open>subjectCalculator(topic).All()\<close> (by default the one subject
  \<open><topic>.*\<close>), and returns what \<open>AddStream\<close> returned: nil when the creation
  succeeded, and the broker's error whenever it failed, a name that is taken included.
  It is safe to call again: after a call that returned nil, on a broker that then finds
  the stream, a second call returns nil and only looks the stream up.
\<close>

theorem ensureStream_creates_on_lookup_failure:
  "ensureStream b topic tr =
     (case js b tr (StreamInfo topic) of
        None \<Rightarrow> (None, tr @ [Call (StreamInfo topic) None])
      | Some e \<Rightarrow>
          (js b (tr @ [Call (StreamInfo topic) (Some e)]) (AddStream (stream_config b topic)),
           tr @ [Call (StreamInfo topic) (Some e),
                 Call (AddStream (stream_config b topic))
                   (js b (tr @ [Call (StreamInfo topic) (Some e)])
                      (AddStream (stream_config b topic)))])) \<and>
   stream_config (newTopicInterpreter j None) topic =
     \<lparr>Name = topic, Description = [], Subjects = [topic @ ''.*'']\<rparr> \<and>
   (fst (ensureStream b topic tr) = None \<and>
    js b (snd (ensureStream b topic tr)) (StreamInfo topic) = None \<longrightarrow>
      ensureStream b topic (snd (ensureStream b topic tr)) =
        (None, snd (ensureStream b topic tr) @ [Call (StreamInfo topic) None]))"
  by (auto simp add: ensureStream_def invoke_def Let_def stream_config_def newTopicInterpreter_def
        defaultSubjectCalculator_def Subjects_All_def split: option.splits)

text \<open>
  The theorem on the broker that keeps its streams, from the empty trace: the first call
  creates the stream \<open>orders\<close>, the second finds it.
\<close>

theorem ensureStream_creates_on_lookup_failure_witness:
  "fst (ensureStream (newTopicInterpreter stream_store None) ''orders'' []) = None \<and>
   js (newTopicInterpreter stream_store None)
     (snd (ensureStream (newTopicInterpreter stream_store None) ''orders'' []))
     (StreamInfo ''orders'') = None \<and>
   ensureStream (newTopicInterpreter stream_store None) ''orders''
     (snd (ensureStream (newTopicInterpreter stream_store None) ''orders'' [])) =
     (None,
      [Call (StreamInfo ''orders'') (Some (External ''nats: stream not found'')),
       Call (AddStream \<lparr>Name = ''orders'', Description = [], Subjects = [''orders.*'']\<rparr>) None,
       Call (StreamInfo ''orders'') None])"
proof -
  have first: "ensureStream (newTopicInterpreter stream_store None) ''orders'' [] =
      (None,
       [Call (StreamInfo ''orders'') (Some (External ''nats: stream not found'')),
        Call (AddStream \<lparr>Name = ''orders'', Description = [], Subjects = [''orders.*'']\<rparr>) None])"
    by (simp add: ensureStream_def newTopicInterpreter_def stream_store_def invoke_def
          defaultSubjectCalculator_def Subjects_All_def Let_def)
  have found: "js (newTopicInterpreter stream_store None)
      (snd (ensureStream (newTopicInterpreter stream_store None) ''orders'' []))
      (StreamInfo ''orders'') = None"
    unfolding first by (simp add: newTopicInterpreter_def stream_store_def)
  let ?b = "newTopicInterpreter stream_store None"
  from ensureStream_creates_on_lookup_failure [of ?b "''orders''" "[]"]
  have "fst (ensureStream ?b ''orders'' []) = None \<and>
        js ?b (snd (ensureStream ?b ''orders'' [])) (StreamInfo ''orders'') = None \<longrightarrow>
        ensureStream ?b ''orders'' (snd (ensureStream ?b ''orders'' [])) =
          (None, snd (ensureStream ?b ''orders'' []) @ [Call (StreamInfo ''orders'') None])"
    by (rule conjunct2 [THEN conjunct2])
  with found have "ensureStream ?b ''orders'' (snd (ensureStream ?b ''orders'' [])) =
          (None, snd (ensureStream ?b ''orders'' []) @ [Call (StreamInfo ''orders'') None])"
    by (simp add: first)
  with found show ?thesis
    by (simp add: first)
qed

section \<open>Validation at construction\<close>

text \<open>
  C6 as stated fails for \<open>NewSubscriber\<close>: it connects before it validates. Without
  an unmarshaler, on a broker that accepts the connection, construction fails with the
  configuration error after the broker has been contacted.
\<close>

theorem NewSubscriber_connects_before_validating_counterexample:
  "NewSubscriber accepting no_unmarshaler_config [] =
     (Inl (New ''SubscriberConfig.Unmarshaler is missing''),
      [Call (Connect ''nats://localhost:4222'') None])"
  by (simp add: NewSubscriber_def NewSubscriberWithNatsConn_def invoke_def accepting_def
        no_unmarshaler_config_def GetStreamingSubscriberSubscriptionConfig_def setDefaults_def
        Validate_def Let_def)

text \<open>
  C6, amended. On a connection that is given, construction (\<open>NewSubscriberWithNatsConn\<close>)
  fails with a configuration error, before any call on the connection, exactly when the
  unmarshaler is missing or, after defaulting, \<open>SubscribersCount > 1\<close> and the queue
  group is empty; otherwise validation succeeds and the next thing it does is
  \<open>conn.JetStream()\<close>. \<open>NewSubscriber\<close> connects to the broker first: a failed
  connect is returned as \<open>cannot connect to NATS\<close> whatever the configuration, and
  after a successful connect it goes on as \<open>NewSubscriberWithNatsConn\<close> does.
\<close>

theorem construction_validates_configuration:
  "rejected cfg =
     (Unmarshaler cfg = None \<or> (1 < SubscribersCount (setDefaults cfg) \<and> QueueGroup cfg = [])) \<and>
   (if rejected cfg then
      (\<exists>err. Validate (setDefaults cfg) = Some err \<and>
             NewSubscriberWithNatsConn conn cfg tr = (Inl err, tr))
    else
      snd (NewSubscriberWithNatsConn conn cfg tr) = tr @ [Call JetStream (conn tr JetStream)]) \<and>
   NewSubscriber br c tr =
     (case br tr (Connect (URL c)) of
        Some e \<Rightarrow>
          (Inl (Wrapped e ''cannot connect to NATS''), tr @ [Call (Connect (URL c)) (Some e)])
      | None \<Rightarrow>
          NewSubscriberWithNatsConn br (GetStreamingSubscriberSubscriptionConfig c)
            (tr @ [Call (Connect (URL c)) None]))"
  by (auto simp add: rejected_def NewSubscriberWithNatsConn_def NewSubscriber_def invoke_def
        Let_def Validate_def setDefaults_def split: option.splits)

section \<open>\<open>Close\<close> is single-shot\<close>

text \<open>
  A subscriber is closed exactly when its closing channel is: the constructor makes one
  that is neither, \<open>Subscribe\<close>, \<open>SubscribeInitialize\<close>, \<open>processMessage\<close>
  and the goroutines leave both as they are, and \<open>Close\<close> sets both.
\<close>

lemma NewSubscriberWithNatsConn_open:
  "fst (NewSubscriberWithNatsConn conn cfg tr) = Inr s \<Longrightarrow> \<not> closed s \<and> closing s = ChanOpen"
  by (auto simp add: NewSubscriberWithNatsConn_def invoke_def Let_def split: option.splits)

lemma Subscribe_loop_fields:
  "closed (snd (Subscribe_loop br ctx topic out i s)) = closed s \<and>
   closing (snd (Subscribe_loop br ctx topic out i s)) = closing s"
proof (induction br ctx topic out i s rule: Subscribe_loop.induct)
  case (1 br ctx topic out i s)
  let ?s = "logger DebugLevel ''Starting subscriber'' None (outputWg_Add out s)"
  let ?r = "subscribe br topic (processMessage_cb ctx out) ?s"
  have s: "closed ?s = closed s" "closing ?s = closing s"
    by (simp_all add: logger_def emit_def outputWg_Add_def)
  show ?case
  proof (cases "i < SubscribersCount (config s)")
    case False
    then show ?thesis
      by (simp add: Subscribe_loop.simps [of br ctx topic out i])
  next
    case True
    show ?thesis
    proof (cases "fst ?r")
      case (Inl err)
      with True s show ?thesis
        by (simp add: Subscribe_loop.simps [of br ctx topic out i] subscribe_fields Let_def)
    next
      case (Inr sub)
      from "1.IH" [OF True refl refl refl Inr] True Inr s show ?thesis
        by (simp add: Subscribe_loop.simps [of br ctx topic out i] subscribe_fields go_def Let_def)
    qed
  qed
qed

lemma Subscribe_fields:
  "closed (snd (Subscribe br ctx topic s)) = closed s"
  "closing (snd (Subscribe br ctx topic s)) = closing s"
  by (simp_all add: Subscribe_def Subscribe_loop_fields go_def Let_def case_prod_unfold
        split: option.splits)

lemma SubscribeInitialize_fields:
  "closed (snd (SubscribeInitialize br topic s)) = closed s"
  "closing (snd (SubscribeInitialize br topic s)) = closing s"
  by (simp_all add: SubscribeInitialize_def subscribe_fields call_broker_def invoke_def Let_def
        case_prod_unfold split: option.splits sum.splits)

lemma processMessage_fields:
  "processMessage br sel1 sel2 ctx m out s = Some s' \<Longrightarrow>
   closed s' = closed s \<and> closing s' = closing s"
  by (auto simp add: processMessage_def isClosed_def logger_def emit_def call_broker_def
        invoke_def Let_def
        split: if_splits option.splits sum.splits send_select.splits wait_select.splits)

lemma Close_keeps_closed_iff_closing:
  "closed s = (closing s = ChanClosed) \<Longrightarrow>
   closed (snd (Close br sched waited s)) = (closing (snd (Close br sched waited s)) = ChanClosed)"
  by (auto simp add: Close_def WaitGroupTimeout_def logger_def emit_def call_broker_def invoke_def
        Let_def run_sched_fields split: prod.splits)

text \<open>
  C7. \<open>Close\<close> on a closed subscriber returns nil and leaves the subscriber as it
  is, trace included. The first \<open>Close\<close>, on a subscriber that is not closed and
  whose closing channel is open, does not panic, sets the closed flag, closes the closing
  channel, and adds one close of that channel to the trace; every \<open>Close\<close> after
  it, with whatever broker and schedule, returns nil and changes nothing.
\<close>

theorem Close_single_shot:
  "(closed s \<longrightarrow> Close br sched waited s = (Returned None, s)) \<and>
   (\<not> closed s \<and> closing s = ChanOpen \<longrightarrow>
      fst (Close br sched waited s) \<noteq> Panicked \<and>
      closed (snd (Close br sched waited s)) \<and>
      closing (snd (Close br sched waited s)) = ChanClosed \<and>
      count_list (chan_closes (trace (snd (Close br sched waited s)))) closing_chan =
        count_list (chan_closes (trace s)) closing_chan + 1 \<and>
      Close br' sched' waited' (snd (Close br sched waited s)) = (Returned None, snd (Close br sched waited s)))"
  by (simp add: Close_def WaitGroupTimeout_def logger_def emit_def call_broker_def invoke_def
        Let_def run_sched_fields run_sched_closing_closes chan_closes_append split: prod.splits)

text \<open>
  The theorem on the fresh subscriber for \<open>orders\<close>: the first \<open>Close\<close> closes
  the closing channel, the only close of it in the trace, and the second returns nil.
\<close>

theorem Close_single_shot_witness:
  "\<not> closed orders_subscriber \<and> closing orders_subscriber = ChanOpen \<and>
   closed (snd (Close accepting [] 0 orders_subscriber)) \<and>
   closing (snd (Close accepting [] 0 orders_subscriber)) = ChanClosed \<and>
   count_list (chan_closes (trace (snd (Close accepting [] 0 orders_subscriber)))) closing_chan = 1 \<and>
   Close accepting [] 0 (snd (Close accepting [] 0 orders_subscriber)) =
     (Returned None, snd (Close accepting [] 0 orders_subscriber))"
proof -
  have c: "\<not> closed orders_subscriber" and o: "closing orders_subscriber = ChanOpen"
    and n: "count_list (chan_closes (trace orders_subscriber)) closing_chan = 0"
    by (simp_all add: orders_subscriber_eq)
  from Close_single_shot [of orders_subscriber accepting "[]" 0 accepting "[]" 0] c o n
  show ?thesis
    by simp
qed

section \<open>The publish subject\<close>

lemma tokens_not_empty: "tokens xs \<noteq> []"
  by (induction xs) (auto split: list.splits)

lemma tokens_append_dot: "tokens (xs @ CHR ''.'' # ys) = tokens xs @ tokens ys"
proof (induction xs)
  case Nil
  show ?case by simp
next
  case (Cons x xs)
  obtain t ts where ts: "tokens xs = t # ts"
    using tokens_not_empty [of xs] by (cases "tokens xs") auto
  with Cons show ?case
    by simp
qed

lemma tokens_without_dot: "CHR ''.'' \<notin> set xs \<Longrightarrow> tokens xs = [xs]"
  by (induction xs) auto

lemma tokens_single: "tokens xs = [t] \<Longrightarrow> CHR ''.'' \<notin> set xs \<and> t = xs"
proof (induction xs arbitrary: t)
  case Nil
  then show ?case by simp
next
  case (Cons x xs)
  obtain u us where us: "tokens xs = u # us"
    using tokens_not_empty [of xs] by (cases "tokens xs") auto
  show ?case
  proof (cases "x = CHR ''.''")
    case True
    with Cons.prems tokens_not_empty [of xs] show ?thesis
      by simp
  next
    case False
    with Cons.prems us have "us = []" and "t = x # u"
      by simp_all
    with us Cons.IH [of u] False show ?thesis
      by simp
  qed
qed

lemma tokens_match_prefix: "tokens_match (ps @ qs) (ps @ ts) = tokens_match qs ts"
  by (induction ps) auto

lemma tokens_match_star: "tokens_match [''*''] ts = (\<exists>t. ts = [t] \<and> t \<noteq> [])"
proof (cases ts)
  case Nil
  then show ?thesis by simp
next
  case (Cons t us)
  then show ?thesis by (cases us) auto
qed

text \<open>
  C8 as stated fails: the publish subject of an id with a dot in it has a token more than
  the subscription \<open>orders.*\<close>, and the publish subject of the empty id has an empty
  last token; neither matches.
\<close>

theorem PublishSubject_dotted_id_counterexample:
  "PublishSubject ''orders'' ''a.b'' = ''orders.a.b'' \<and>
   \<not> subject_matches ''orders.*'' (PublishSubject ''orders'' ''a.b'') \<and>
   \<not> subject_matches ''orders.*'' (PublishSubject ''orders'' [])"
  by (simp add: PublishSubject_def subject_matches_def)

text \<open>
  C8, amended. \<open>PublishSubject(topic, id)\<close> is \<open><topic>.<id>\<close>; the one broker call
  \<open>subscribe\<close> makes for the topic subscribes to the subject \<open><topic>.*\<close>; and the
  publish subject matches that subscription exactly when the id is one token that is not
  empty, that is, when the id is not empty and has no dot in it. For such an id it
  matches for every topic.
\<close>

theorem PublishSubject_matches_wildcard:
  "PublishSubject topic uuid = topic @ ''.'' @ uuid \<and>
   map subscribed_subject (broker_calls (new_events s (snd (subscribe br topic cb s)))) =
     [Some (topic @ ''.*'')] \<and>
   subject_matches (topic @ ''.*'') (PublishSubject topic uuid) =
     (uuid \<noteq> [] \<and> CHR ''.'' \<notin> set uuid)"
proof -
  have "tokens_match (tokens topic @ [''*'']) (tokens topic @ tokens uuid) =
        (uuid \<noteq> [] \<and> CHR ''.'' \<notin> set uuid)"
    unfolding tokens_match_prefix tokens_match_star
    by (auto dest: tokens_single simp add: tokens_without_dot)
  moreover have "tokens (topic @ ''.*'') = tokens topic @ [''*'']"
    using tokens_append_dot [of topic "''*''"] by simp
  moreover have "tokens (topic @ ''.'' @ uuid) = tokens topic @ tokens uuid"
    using tokens_append_dot [of topic uuid] by simp
  ultimately show ?thesis
    by (simp add: PublishSubject_def subject_matches_def new_events_def trace_subscribe)
qed

section \<open>A message that cannot be decoded\<close>

text \<open>
  C9. When \<open>Unmarshal\<close> fails on a message, \<open>processMessage\<close> returns, whatever
  the selects would have done, having added to the trace the log of the receipt and the
  log of the error and nothing else: no send on the output channel, no \<open>Ack\<close>, no
  \<open>Nak\<close>. (On a closed subscriber it returns before it decodes, with no effect.)
\<close>

theorem processMessage_drops_undecodable:
  assumes "Unmarshaler (config s) = Some unmarshal" and "unmarshal m = Inl err"
  shows "processMessage br sel1 sel2 ctx m out s =
           (if closed s then Some s
            else Some (s\<lparr>trace := trace s @
                            [Log TraceLevel ''Received message'' None,
                             Log ErrorLevel ''Cannot unmarshal message'' (Some err)]\<rparr>))"
  using assms
  by (simp add: processMessage_def isClosed_def logger_def emit_def Let_def)

text \<open>
  The theorem on a message with an empty payload, which the unmarshaler of the strict
  subscriber refuses.
\<close>

theorem processMessage_drops_undecodable_witness:
  "\<not> closed strict_subscriber \<and>
   processMessage accepting sent acked 0 \<lparr>Subject = ''orders.abc123'', Data = []\<rparr> 0
     strict_subscriber =
     Some (strict_subscriber
             \<lparr>trace := trace strict_subscriber @
                [Log TraceLevel ''Received message'' None,
                 Log ErrorLevel ''Cannot unmarshal message'' (Some (External ''empty payload''))]\<rparr>)"
proof -
  let ?u = "\<lambda>m. if Data m = [] then Inl (External ''empty payload'')
                  else Inr \<lparr>UUID = Subject m, Payload = Data m\<rparr>"
  have c: "\<not> closed strict_subscriber"
    by (simp add: strict_subscriber_eq)
  have u: "Unmarshaler (config strict_subscriber) = Some ?u"
    by (simp add: strict_subscriber_eq strict_config_def)
  have r: "?u \<lparr>Subject = ''orders.abc123'', Data = []\<rparr> = Inl (External ''empty payload'')"
    by simp
  from processMessage_drops_undecodable [OF u r, of accepting sent acked 0 0] c show ?thesis
    by simp
qed

section \<open>\<open>SubscribeTimeout\<close> is not used\<close>

lemma with_SubscribeTimeout_fields:
  "closed (with_SubscribeTimeout t s) = closed s"
  "closing (with_SubscribeTimeout t s) = closing s"
  "outputsWg (with_SubscribeTimeout t s) = outputsWg s"
  "outputs (with_SubscribeTimeout t s) = outputs s"
  "next_output (with_SubscribeTimeout t s) = next_output s"
  "done_ctxs (with_SubscribeTimeout t s) = done_ctxs s"
  "goroutines (with_SubscribeTimeout t s) = goroutines s"
  "trace (with_SubscribeTimeout t s) = trace s"
  "Unmarshaler (config (with_SubscribeTimeout t s)) = Unmarshaler (config s)"
  "QueueGroup (config (with_SubscribeTimeout t s)) = QueueGroup (config s)"
  "DurableName (config (with_SubscribeTimeout t s)) = DurableName (config s)"
  "SubscribersCount (config (with_SubscribeTimeout t s)) = SubscribersCount (config s)"
  "AckWaitTimeout (config (with_SubscribeTimeout t s)) = AckWaitTimeout (config s)"
  "CloseTimeout (config (with_SubscribeTimeout t s)) = CloseTimeout (config s)"
  by (simp_all add: with_SubscribeTimeout_def)

lemma with_SubscribeTimeout_commutes:
  "outputWg_Add out (with_SubscribeTimeout t s) = with_SubscribeTimeout t (outputWg_Add out s)"
  "outputWg_Done out (with_SubscribeTimeout t s) = with_SubscribeTimeout t (outputWg_Done out s)"
  "outputsWg_Done (with_SubscribeTimeout t s) = with_SubscribeTimeout t (outputsWg_Done s)"
  "close_output out (with_SubscribeTimeout t s) = with_SubscribeTimeout t (close_output out s)"
  "emit e (with_SubscribeTimeout t s) = with_SubscribeTimeout t (emit e s)"
  "logger l msg err (with_SubscribeTimeout t s) = with_SubscribeTimeout t (logger l msg err s)"
  "go g (with_SubscribeTimeout t s) = with_SubscribeTimeout t (go g s)"
  "call_broker br c (with_SubscribeTimeout t s) =
     (fst (call_broker br c s), with_SubscribeTimeout t (snd (call_broker br c s)))"
  by (simp_all add: with_SubscribeTimeout_def outputWg_Add_def outputWg_Done_def outputsWg_Done_def
        close_output_def emit_def logger_def go_def call_broker_def invoke_def Let_def)

lemma js_subscribe_with_SubscribeTimeout:
  "js_subscribe br c (with_SubscribeTimeout t s) =
     (fst (js_subscribe br c s), with_SubscribeTimeout t (snd (js_subscribe br c s)))"
  by (simp add: js_subscribe_def call_broker_def invoke_def with_SubscribeTimeout_def Let_def
        split: option.splits)

lemma subscribe_with_SubscribeTimeout:
  "subscribe br topic cb (with_SubscribeTimeout t s) =
     (fst (subscribe br topic cb s), with_SubscribeTimeout t (snd (subscribe br topic cb s)))"
  by (simp add: subscribe_def js_subscribe_with_SubscribeTimeout with_SubscribeTimeout_fields
        Let_def)

lemma Subscribe_loop_with_SubscribeTimeout:
  "Subscribe_loop br ctx topic out i (with_SubscribeTimeout t s) =
     (fst (Subscribe_loop br ctx topic out i s),
      with_SubscribeTimeout t (snd (Subscribe_loop br ctx topic out i s)))"
proof (induction br ctx topic out i s rule: Subscribe_loop.induct)
  case (1 br ctx topic out i s)
  show ?case
  proof (cases "i < SubscribersCount (config s)")
    case False
    then show ?thesis
      by (simp add: Subscribe_loop.simps [of br ctx topic out i] with_SubscribeTimeout_fields)
  next
    case True
    let ?r = "subscribe br topic (processMessage_cb ctx out)
                (logger DebugLevel ''Starting subscriber'' None (outputWg_Add out s))"
    show ?thesis
    proof (cases "fst ?r")
      case (Inl err)
      with True show ?thesis
        by (simp add: Subscribe_loop.simps [of br ctx topic out i] with_SubscribeTimeout_fields
              with_SubscribeTimeout_commutes subscribe_with_SubscribeTimeout Let_def)
    next
      case (Inr sub)
      from "1.IH" [OF True refl refl refl Inr]
      have "Subscribe_loop br ctx topic out (i + 1)
              (with_SubscribeTimeout t (go (monitor ctx sub out) (snd ?r))) =
            (fst (Subscribe_loop br ctx topic out (i + 1) (go (monitor ctx sub out) (snd ?r))),
             with_SubscribeTimeout t
               (snd (Subscribe_loop br ctx topic out (i + 1) (go (monitor ctx sub out) (snd ?r)))))" .
      with True Inr show ?thesis
        by (simp add: Subscribe_loop.simps [of br ctx topic out i] with_SubscribeTimeout_fields
              with_SubscribeTimeout_commutes subscribe_with_SubscribeTimeout Let_def)
    qed
  qed
qed

lemma step_with_SubscribeTimeout:
  "step br k (with_SubscribeTimeout t s) = with_SubscribeTimeout t (step br k s)"
proof (cases "k < length (goroutines s) \<and> goroutine_ready (goroutines s ! k) s")
  case False
  then show ?thesis
    by (cases "goroutines s ! k") (auto simp add: step_def with_SubscribeTimeout_fields)
next
  case True
  have upd: "with_SubscribeTimeout t s\<lparr>goroutines := gs\<rparr> =
             with_SubscribeTimeout t (s\<lparr>goroutines := gs\<rparr>)" for gs
    by (simp add: with_SubscribeTimeout_def)
  from True show ?thesis
    by (cases "goroutines s ! k")
       (auto simp add: step_def with_SubscribeTimeout_fields with_SubscribeTimeout_commutes upd
          Let_def split: prod.splits)
qed

lemma run_sched_with_SubscribeTimeout:
  "run_sched br sched (with_SubscribeTimeout t s) = with_SubscribeTimeout t (run_sched br sched s)"
  by (induction sched arbitrary: s) (simp_all add: step_with_SubscribeTimeout)

lemma Subscribe_with_SubscribeTimeout:
  "Subscribe br ctx topic (with_SubscribeTimeout t s) =
     (fst (Subscribe br ctx topic s), with_SubscribeTimeout t (snd (Subscribe br ctx topic s)))"
proof -
  have upd: "with_SubscribeTimeout t s\<lparr>outputs := os, next_output := n\<rparr>\<lparr>outputsWg := w\<rparr> =
      with_SubscribeTimeout t (s\<lparr>outputs := os, next_output := n\<rparr>\<lparr>outputsWg := w\<rparr>)" for os n w
    by (simp add: with_SubscribeTimeout_def)
  show ?thesis
    by (simp add: Subscribe_def with_SubscribeTimeout_fields upd
          Subscribe_loop_with_SubscribeTimeout with_SubscribeTimeout_commutes Let_def
          split: prod.splits option.splits)
qed

lemma SubscribeInitialize_with_SubscribeTimeout:
  "SubscribeInitialize br topic (with_SubscribeTimeout t s) =
     (fst (SubscribeInitialize br topic s),
      with_SubscribeTimeout t (snd (SubscribeInitialize br topic s)))"
proof -
  have upd: "with_SubscribeTimeout t s\<lparr>trace := tr\<rparr> =
             with_SubscribeTimeout t (s\<lparr>trace := tr\<rparr>)" for tr
    by (simp add: with_SubscribeTimeout_def)
  show ?thesis
    by (simp add: SubscribeInitialize_def with_SubscribeTimeout_fields upd
          subscribe_with_SubscribeTimeout with_SubscribeTimeout_commutes Let_def
          split: prod.splits option.splits sum.splits)
qed

lemma processMessage_with_SubscribeTimeout:
  "processMessage br sel1 sel2 ctx m out (with_SubscribeTimeout t s) =
     map_option (with_SubscribeTimeout t) (processMessage br sel1 sel2 ctx m out s)"
  by (simp add: processMessage_def isClosed_def with_SubscribeTimeout_fields
        with_SubscribeTimeout_commutes Let_def
        split: prod.splits option.splits sum.splits send_select.splits wait_select.splits)

lemma Close_with_SubscribeTimeout:
  "Close br sched waited (with_SubscribeTimeout t s) =
     (fst (Close br sched waited s), with_SubscribeTimeout t (snd (Close br sched waited s)))"
proof -
  have upd: "with_SubscribeTimeout t s\<lparr>closed := b\<rparr> = with_SubscribeTimeout t (s\<lparr>closed := b\<rparr>)"
    "with_SubscribeTimeout t s'\<lparr>closing := c\<rparr> = with_SubscribeTimeout t (s'\<lparr>closing := c\<rparr>)"
    for b c s'
    by (simp_all add: with_SubscribeTimeout_def)
  show ?thesis
    by (simp add: Close_def WaitGroupTimeout_def with_SubscribeTimeout_fields upd
          with_SubscribeTimeout_commutes run_sched_with_SubscribeTimeout Let_def
          split: prod.splits option.splits)
qed

lemma NewSubscriberWithNatsConn_SubscribeTimeout:
  "NewSubscriberWithNatsConn conn (cfg\<lparr>SubscribeTimeout := t\<rparr>) tr =
     (map_sum id (with_SubscribeTimeout (if t \<le> 0 then Second * 30 else t))
        (fst (NewSubscriberWithNatsConn conn cfg tr)),
      snd (NewSubscriberWithNatsConn conn cfg tr))"
  by (simp add: NewSubscriberWithNatsConn_def setDefaults_def Validate_def invoke_def
        with_SubscribeTimeout_def Let_def split: option.splits)

text \<open>
  C10. Two subscribers that differ in the \<open>SubscribeTimeout\<close> of their
  configuration only behave alike: \<open>Subscribe\<close>, \<open>SubscribeInitialize\<close>,
  \<open>processMessage\<close>, \<open>Close\<close> and every step of a goroutine return the same
  result and make the same calls, and the subscribers they leave again differ in
  \<open>SubscribeTimeout\<close> only. Two configurations that differ in that field only are
  accepted or rejected alike by the constructor, which does the same to the broker for
  both and reads the field in \<open>setDefaults\<close> only.
\<close>

theorem SubscribeTimeout_is_never_read:
  "Subscribe br ctx topic (with_SubscribeTimeout t s) =
     (fst (Subscribe br ctx topic s), with_SubscribeTimeout t (snd (Subscribe br ctx topic s))) \<and>
   SubscribeInitialize br topic (with_SubscribeTimeout t s) =
     (fst (SubscribeInitialize br topic s),
      with_SubscribeTimeout t (snd (SubscribeInitialize br topic s))) \<and>
   processMessage br sel1 sel2 ctx m out (with_SubscribeTimeout t s) =
     map_option (with_SubscribeTimeout t) (processMessage br sel1 sel2 ctx m out s) \<and>
   Close br sched waited (with_SubscribeTimeout t s) =
     (fst (Close br sched waited s), with_SubscribeTimeout t (snd (Close br sched waited s))) \<and>
   step br k (with_SubscribeTimeout t s) = with_SubscribeTimeout t (step br k s) \<and>
   NewSubscriberWithNatsConn conn (cfg\<lparr>SubscribeTimeout := t\<rparr>) tr =
     (map_sum id (with_SubscribeTimeout (if t \<le> 0 then Second * 30 else t))
        (fst (NewSubscriberWithNatsConn conn cfg tr)),
      snd (NewSubscriberWithNatsConn conn cfg tr))"
  by (intro conjI)
     (rule Subscribe_with_SubscribeTimeout SubscribeInitialize_with_SubscribeTimeout
        processMessage_with_SubscribeTimeout Close_with_SubscribeTimeout
        step_with_SubscribeTimeout NewSubscriberWithNatsConn_SubscribeTimeout)+

end
